theory Spec2Isabelle
  imports
    Complex_Main
    "HOL-Library.Char_ord"
    "HOL-Library.List_Lexorder"
    "HOL-Library.Product_Lexorder"
begin

section \<open>The birth-rate dashboard: data model\<close>

text \<open>
  The program (\<^verbatim>\<open>dashboard.py\<close>) reads one CSV row per registered birth into a
  pandas data frame and derives the tables its charts show. A data frame is modelled as
  the list of its rows, a column as the list of one field, and every pandas primitive the
  program uses by its meaning on such lists: a boolean mask is \<open>filter\<close>,
  \<^verbatim>\<open>.shape[0]\<close> and \<^verbatim>\<open>.sum()\<close> of a mask are \<open>length\<close>, \<^verbatim>\<open>.unique()\<close>
  keeps the first occurrence of every value, in order of appearance.

  A cell of the department column comes out of the CSV reader either as an integer or as
  a string (codes such as \<^verbatim>\<open>2A\<close> make the column a string column), which is why the
  program calls \<^verbatim>\<open>str\<close> on it. The other columns the aggregation reads are integer
  columns without missing values; the name-origin code may be missing.

  On a frame without rows a row-wise \<^verbatim>\<open>apply\<close> of pandas calls the function once
  on a row of missing values, to see what it returns. For the last-name label that call
  returns a label and the new column is empty. For the normalised count it raises inside
  \<^verbatim>\<open>monthrange\<close>, pandas then returns the frame itself, and assigning a frame to
  one column raises \<^verbatim>\<open>ValueError\<close>: the monthly table of an empty frame is not built,
  and the model says so.
\<close>

datatype cell = IntCell int | StrCell string

record birth =
  DEPNAIS :: cell
  MNAIS :: int
  AGEXACTM :: int
  AGEXACTP :: int
  INDNATM :: int
  INDNATP :: int
  ORIGINOM :: "int option"
  ARECM :: int
  ARECP :: int
  AMAR :: int

type_synonym dataframe = "birth list"

text \<open>Errors the aggregation can raise, as values.\<close>

datatype error =
  IndexError
  | KeyError int
  | IllegalMonthError int
  | ValueError

text \<open>
  The value of a numpy floating-point expression: a finite number, an infinity, or
  not-a-number. Finite values are kept as exact reals (rounding to 53 bits is not
  modelled); what is modelled is which operations leave the finite numbers.
\<close>

datatype npfloat = Finite real | PosInf | NegInf | NaN

fun isfinite :: "npfloat \<Rightarrow> bool" where
  "isfinite (Finite x) = True"
| "isfinite PosInf = False"
| "isfinite NegInf = False"
| "isfinite NaN = False"

text \<open>\<^verbatim>\<open>np.log\<close> of a count: the logarithm of zero is minus infinity, with a warning.\<close>

fun np_log :: "nat \<Rightarrow> npfloat" where
  "np_log n = (if n = 0 then NegInf else Finite (ln (real n)))"

text \<open>
  Division of two counts held as numpy integers: the quotient is a float, and a zero
  divisor gives not-a-number (for \<open>0 / 0\<close>) or infinity, with a warning and no exception.
\<close>

fun np_divide :: "nat \<Rightarrow> nat \<Rightarrow> npfloat" where
  "np_divide n d =
     (if d = 0 then (if n = 0 then NaN else PosInf) else Finite (real n / real d))"

text \<open>Multiplication of a float by a positive finite constant (\<^verbatim>\<open>* 100\<close>).\<close>

fun np_times :: "npfloat \<Rightarrow> real \<Rightarrow> npfloat" where
  "np_times (Finite x) k = Finite (x * k)"
| "np_times PosInf k = PosInf"
| "np_times NegInf k = NegInf"
| "np_times NaN k = NaN"

subsection \<open>Python and pandas primitives\<close>

text \<open>\<^verbatim>\<open>str\<close> of an integer: its decimal digits, with a sign when negative.\<close>

fun str_nat :: "nat \<Rightarrow> string" where
  "str_nat n =
     (if n < 10 then [''0123456789'' ! n]
      else str_nat (n div 10) @ [''0123456789'' ! (n mod 10)])"

declare str_nat.simps [simp del]

definition str_int :: "int \<Rightarrow> string" where
  "str_int i = (if i < 0 then CHR ''-'' # str_nat (nat (- i)) else str_nat (nat i))"

fun str :: "cell \<Rightarrow> string" where
  "str (IntCell i) = str_int i"
| "str (StrCell s) = s"

text \<open>\<^verbatim>\<open>Series.unique()\<close>: the distinct values, each at its first occurrence.\<close>

definition unique :: "'a list \<Rightarrow> 'a list" where
  "unique xs = rev (remdups (rev xs))"

text \<open>
  Running a fallible function over a list, as a list comprehension or a row-wise
  \<^verbatim>\<open>apply\<close> does: the first exception ends the whole computation.
\<close>

fun traverse :: "('a \<Rightarrow> error + 'b) \<Rightarrow> 'a list \<Rightarrow> error + 'b list" where
  "traverse f [] = Inr []"
| "traverse f (x # xs) =
     (case f x of
        Inl e \<Rightarrow> Inl e
      | Inr y \<Rightarrow> (case traverse f xs of Inl e \<Rightarrow> Inl e | Inr ys \<Rightarrow> Inr (y # ys)))"

section \<open>Loading and cleaning\<close>

text \<open>
  \<^verbatim>\<open>
  def clean_dep(dep) -> str:
      dep = str(dep)
      if len(dep) == 1:
          return f"0{dep}"
      return dep
  \<close>
\<close>

definition clean_dep :: "cell \<Rightarrow> string" where
  "clean_dep dep = (let dep' = str dep in if length dep' = 1 then ''0'' @ dep' else dep')"

text \<open>
  \<^verbatim>\<open>clean_and_read_data\<close> replaces every value of the department column by its
  \<^verbatim>\<open>clean_dep\<close>; the argument is the frame as the CSV reader returned it.
\<close>

definition clean_and_read_data :: "dataframe \<Rightarrow> dataframe" where
  "clean_and_read_data raw_df = map (\<lambda>r. r\<lparr>DEPNAIS := StrCell (clean_dep (DEPNAIS r))\<rparr>) raw_df"

section \<open>Births per department\<close>

text \<open>
  \<^verbatim>\<open>
  df_choropleth = pd.DataFrame(
      [(code, df[df["DEPNAIS"] == clean_dep(code)].shape[0]) for code in gdf.index],
      columns=["Department", "Births (abs)"])
  df_choropleth["Births (log)"] = np.log(df_choropleth["Births (abs)"])
  \<close>
  \<open>gdf_index\<close> is the index of the geometry reference, the department codes of the
  GeoJSON file in its own order; \<open>df\<close> is the cleaned frame. A cell that is not a
  string is never equal to the string \<^verbatim>\<open>clean_dep(code)\<close>.
\<close>

record choropleth_row =
  Department :: string
  Births_abs :: nat
  Births_log :: npfloat

definition choropleth_counts :: "string list \<Rightarrow> dataframe \<Rightarrow> (string \<times> nat) list" where
  "choropleth_counts gdf_index df =
     map (\<lambda>code. (code, length (filter (\<lambda>r. DEPNAIS r = StrCell (clean_dep (StrCell code))) df)))
       gdf_index"

definition df_choropleth :: "string list \<Rightarrow> dataframe \<Rightarrow> choropleth_row list" where
  "df_choropleth gdf_index df =
     map (\<lambda>(code, n). \<lparr>Department = code, Births_abs = n, Births_log = np_log n\<rparr>)
       (choropleth_counts gdf_index df)"

section \<open>Births per month\<close>

definition months :: "string list" where
  "months = [''January'', ''February'', ''March'', ''April'', ''May'', ''June'',
             ''July'', ''August'', ''September'', ''October'', ''November'', ''December'']"

text \<open>
  Indexing a Python list: an index from \<open>-len\<close> up to \<open>-1\<close> counts from the end, an
  index outside \<open>-len .. len - 1\<close> raises.
\<close>

definition py_getitem :: "'a list \<Rightarrow> int \<Rightarrow> error + 'a" where
  "py_getitem xs i =
     (if 0 \<le> i \<and> i < int (length xs) then Inr (xs ! nat i)
      else if - int (length xs) \<le> i \<and> i < 0 then Inr (xs ! nat (int (length xs) + i))
      else Inl IndexError)"

text \<open>
  \<^verbatim>\<open>calendar.monthrange(year, month)[1]\<close>, the number of days of a month: the standard
  library refuses a month outside 1..12, and adds the leap day to February.
\<close>

definition isleap :: "int \<Rightarrow> bool" where
  "isleap year = (year mod 4 = 0 \<and> (year mod 100 \<noteq> 0 \<or> year mod 400 = 0))"

definition mdays :: "nat list" where
  "mdays = [0, 31, 28, 31, 30, 31, 30, 31, 31, 30, 31, 30, 31]"

definition monthrange_ndays :: "int \<Rightarrow> int \<Rightarrow> error + nat" where
  "monthrange_ndays year month =
     (if \<not> (1 \<le> month \<and> month \<le> 12) then Inl (IllegalMonthError month)
      else Inr (mdays ! nat month + (if month = 2 \<and> isleap year then 1 else 0)))"

text \<open>
  Python's \<^verbatim>\<open>round\<close> of a float, to an integer: to the nearest, and a tie to the even
  neighbour.
\<close>

definition py_round :: "real \<Rightarrow> int" where
  "py_round x =
     (let f = \<lfloor>x\<rfloor>; d = x - of_int f
      in if d < 1 / 2 then f else if 1 / 2 < d then f + 1 else if even f then f else f + 1)"

text \<open>
  \<^verbatim>\<open>Series.replace(dict)\<close>: a value that is a key of the dictionary becomes the key's
  value, any other value stays.
\<close>

definition replace_dict :: "('a \<times> 'a) list \<Rightarrow> 'a \<Rightarrow> 'a" where
  "replace_dict d v = (case map_of d v of None \<Rightarrow> v | Some w \<Rightarrow> w)"

definition procreation :: "(string \<times> string) list" where
  "procreation =
     [(''January'', ''April 2018''), (''February'', ''May 2018''), (''March'', ''June 2018''),
      (''April'', ''July 2018''), (''May'', ''August 2018''), (''June'', ''September 2018''),
      (''July'', ''October 2018''), (''August'', ''November 2018''),
      (''September'', ''December 2018''), (''October'', ''January 2019''),
      (''November'', ''February 2019''), (''December'', ''March 2019'')]"

text \<open>
  \<^verbatim>\<open>
  df_barplot = pd.DataFrame(
      [(month, months[month - 1], df[df["MNAIS"] == month].shape[0])
       for month in df["MNAIS"].unique()],
      columns=["Month_ind", "Month (birth)", "Births (abs)"],
  ).sort_values("Month_ind")
  df_barplot["Births (norm)"] = df_barplot.apply(
      lambda ser: round((ser["Births (abs)"] / monthrange(2019, ser["Month_ind"])[1] * 30)),
      axis=1)
  df_barplot["Month (procreation)"] = df_barplot["Month (birth)"].replace({...})
  df_barplot["Number"] = df_barplot["Births (norm)"]
  \<close>
  The table is built in the source's four steps. The month indices of the first step are
  distinct, so the order \<^verbatim>\<open>sort_values\<close> gives does not depend on its algorithm.
  When the first step gives no row (the frame has no record), the row-wise
  \<^verbatim>\<open>apply\<close> of the third step returns a frame, and the assignment of that frame to
  the column \<^verbatim>\<open>Births (norm)\<close> raises \<^verbatim>\<open>ValueError\<close>.
\<close>

record barplot_row =
  Month_ind :: int
  Month_birth :: string
  Month_Births_abs :: nat
  Births_norm :: int
  Month_procreation :: string
  Number :: int

definition barplot_counts :: "dataframe \<Rightarrow> error + (int \<times> string \<times> nat) list" where
  "barplot_counts df =
     traverse
       (\<lambda>month. case py_getitem months (month - 1) of
                  Inl e \<Rightarrow> Inl e
                | Inr name \<Rightarrow> Inr (month, name, length (filter (\<lambda>r. MNAIS r = month) df)))
       (unique (map MNAIS df))"

definition births_norm :: "int \<times> string \<times> nat \<Rightarrow> error + int" where
  "births_norm ser =
     (case ser of (month, name, births) \<Rightarrow>
        (case monthrange_ndays 2019 month of
           Inl e \<Rightarrow> Inl e
         | Inr ndays \<Rightarrow> Inr (py_round (real births / real ndays * 30))))"

definition barplot_finish :: "int \<times> string \<times> nat \<Rightarrow> error + barplot_row" where
  "barplot_finish ser =
     (case births_norm ser of
        Inl e \<Rightarrow> Inl e
      | Inr normalized \<Rightarrow>
          (case ser of (month, name, births) \<Rightarrow>
             Inr \<lparr>Month_ind = month, Month_birth = name, Month_Births_abs = births,
                  Births_norm = normalized, Month_procreation = replace_dict procreation name,
                  Number = normalized\<rparr>))"

definition df_barplot :: "dataframe \<Rightarrow> error + barplot_row list" where
  "df_barplot df =
     (case barplot_counts df of
        Inl e \<Rightarrow> Inl e
      | Inr rows \<Rightarrow>
          (if sort_key fst rows = [] then Inl ValueError
           else traverse barplot_finish (sort_key fst rows)))"

section \<open>Last-name choice\<close>

text \<open>
  \<^verbatim>\<open>
  ind_to_origine_nom = {1: "Father", 2: "Mother", 3: "Father - Mother",
                        4: "Mother - Father", 5: "Other"}
  df["Last name choice"] = df.apply(
      lambda ser: ind_to_origine_nom.get(ser["ORIGINOM"], "Father"), axis=1)
  \<close>
  The new column is a function of the row, and is modelled as one.
\<close>

definition ind_to_origine_nom :: "(int \<times> string) list" where
  "ind_to_origine_nom =
     [(1, ''Father''), (2, ''Mother''), (3, ''Father - Mother''), (4, ''Mother - Father''),
      (5, ''Other'')]"

definition last_name_choice :: "birth \<Rightarrow> string" where
  "last_name_choice ser =
     (case ORIGINOM ser of
        None \<Rightarrow> ''Father''
      | Some k \<Rightarrow> (case map_of ind_to_origine_nom k of None \<Rightarrow> ''Father'' | Some v \<Rightarrow> v))"

definition ind_to_nat :: "(int \<times> string) list" where
  "ind_to_nat = [(1, ''French''), (2, ''Foreign'')]"

text \<open>Subscripting a dictionary raises on a key it does not hold.\<close>

definition dict_getitem :: "(int \<times> 'v) list \<Rightarrow> int \<Rightarrow> error + 'v" where
  "dict_getitem d k = (case map_of d k of None \<Rightarrow> Inl (KeyError k) | Some v \<Rightarrow> Inr v)"

text \<open>
  \<^verbatim>\<open>df.groupby(keys).count()[column].reset_index()\<close> for a column without missing
  values (the year of birth): one row per distinct key, in ascending order of the key,
  with the number of rows of the frame that have the key.
\<close>

definition groupby_count :: "('k::linorder) list \<Rightarrow> ('k \<times> nat) list" where
  "groupby_count ks = map (\<lambda>k. (k, length (filter (\<lambda>k'. k' = k) ks))) (sort (remdups ks))"

definition last_name_groups :: "dataframe \<Rightarrow> ((int \<times> int \<times> string) \<times> nat) list" where
  "last_name_groups df =
     groupby_count (map (\<lambda>r. (INDNATP r, INDNATM r, last_name_choice r)) df)"

text \<open>
  \<^verbatim>\<open>
  groups = df.groupby(["INDNATP", "INDNATM", "Last name choice"]).count()["ANAIS"].reset_index()
  [(ser["ANAIS"], f"{ind_to_nat[ser['INDNATP']]}/{ind_to_nat[ser['INDNATM']]}",
    ser["Last name choice"]) for i, ser in groups.iterrows()]
  \<close>
  The result is the table handed to the sunburst chart, or the exception of the first
  failing lookup.
\<close>

definition sunburst_row ::
  "(int \<times> int \<times> string) \<times> nat \<Rightarrow> error + (nat \<times> string \<times> string)" where
  "sunburst_row ser =
     (case ser of ((natp, natm, choice), births) \<Rightarrow>
        (case dict_getitem ind_to_nat natp of
           Inl e \<Rightarrow> Inl e
         | Inr p \<Rightarrow>
             (case dict_getitem ind_to_nat natm of
                Inl e \<Rightarrow> Inl e
              | Inr m \<Rightarrow> Inr (births, p @ ''/'' @ m, choice))))"

definition last_name_pie :: "dataframe \<Rightarrow> error + (nat \<times> string \<times> string) list" where
  "last_name_pie df = traverse sunburst_row (last_name_groups df)"

text \<open>
  \<^verbatim>\<open>
  for age in sorted(df["AGEXACTP"].unique()):
      sub_df = df[(df["AGEXACTP"] == age) | (df["AGEXACTM"] == age)]
      for name_choice in df["Last name choice"].unique():
          data.append((age, name_choice,
              ((sub_df["Last name choice"] == name_choice).sum() / sub_df.shape[0]) * 100))
  \<close>
\<close>

definition sub_df :: "dataframe \<Rightarrow> int \<Rightarrow> dataframe" where
  "sub_df df age = filter (\<lambda>r. AGEXACTP r = age \<or> AGEXACTM r = age) df"

definition last_name_line :: "dataframe \<Rightarrow> (int \<times> string \<times> npfloat) list" where
  "last_name_line df =
     concat (map (\<lambda>age.
        map (\<lambda>name_choice.
               (age, name_choice,
                np_times
                  (np_divide
                     (length (filter (\<lambda>r. last_name_choice r = name_choice) (sub_df df age)))
                     (length (sub_df df age)))
                  100))
          (unique (map last_name_choice df)))
       (sort (unique (map AGEXACTP df))))"

section \<open>Recognition rate\<close>

text \<open>
  \<^verbatim>\<open>
  for age in sorted(df["AGEXACTP"].unique()):
      data.append(("Mother", age,
          (((df["AGEXACTM"] == age) & ((df["ARECM"] != 0) | (df["AMAR"] != 0))).sum()
           / (df["AGEXACTM"] == age).sum()) * 100))
      data.append(("Father", age,
          (((df["AGEXACTP"] == age) & ((df["ARECP"] != 0) | (df["AMAR"] != 0))).sum()
           / (df["AGEXACTP"] == age).sum()) * 100))
  \<close>
\<close>

definition recognition :: "dataframe \<Rightarrow> (string \<times> int \<times> npfloat) list" where
  "recognition df =
     concat (map (\<lambda>age.
        [(''Mother'', age,
          np_times
            (np_divide
               (length (filter (\<lambda>r. AGEXACTM r = age \<and> (ARECM r \<noteq> 0 \<or> AMAR r \<noteq> 0)) df))
               (length (filter (\<lambda>r. AGEXACTM r = age) df)))
            100),
         (''Father'', age,
          np_times
            (np_divide
               (length (filter (\<lambda>r. AGEXACTP r = age \<and> (ARECP r \<noteq> 0 \<or> AMAR r \<noteq> 0)) df))
               (length (filter (\<lambda>r. AGEXACTP r = age) df)))
            100)])
       (sort (unique (map AGEXACTP df))))"

section \<open>Sample frames\<close>

text \<open>
  Small frames on which the tables are computed in full. \<open>scenario\<close> is the
  three-birth scenario of the specification: department 1 (read once as a number and once
  as text), January, fathers of 30, 30 and 31 with mothers of 28, 29 and 28, the
  nationality pairs French/French, French/Foreign and Foreign/French (father/mother), and
  the name-origin codes 1, 1 and 9. \<open>overseas\<close> is one birth in a department
  that a geometry reference of the mainland does not list. \<open>month_frame\<close> makes
  one birth per month of a list, \<open>mixed\<close> has parents whose ages overlap only in
  part, and \<open>unknown_flag\<close> holds a nationality flag that is neither 1 nor 2.
\<close>

definition scenario :: dataframe where
  "scenario =
     [\<lparr>DEPNAIS = IntCell 1, MNAIS = 1, AGEXACTM = 28, AGEXACTP = 30, INDNATM = 1, INDNATP = 1,
        ORIGINOM = Some 1, ARECM = 0, ARECP = 0, AMAR = 2015\<rparr>,
      \<lparr>DEPNAIS = IntCell 1, MNAIS = 1, AGEXACTM = 29, AGEXACTP = 30, INDNATM = 2, INDNATP = 1,
        ORIGINOM = Some 1, ARECM = 2018, ARECP = 2019, AMAR = 0\<rparr>,
      \<lparr>DEPNAIS = StrCell ''1'', MNAIS = 1, AGEXACTM = 28, AGEXACTP = 31, INDNATM = 1, INDNATP = 2,
        ORIGINOM = Some 9, ARECM = 0, ARECP = 0, AMAR = 0\<rparr>]"

definition overseas :: dataframe where
  "overseas =
     [\<lparr>DEPNAIS = IntCell 974, MNAIS = 3, AGEXACTM = 31, AGEXACTP = 33, INDNATM = 1, INDNATP = 1,
        ORIGINOM = Some 2, ARECM = 2018, ARECP = 0, AMAR = 0\<rparr>]"

definition month_frame :: "int list \<Rightarrow> dataframe" where
  "month_frame ms =
     map (\<lambda>m. \<lparr>DEPNAIS = StrCell ''75'', MNAIS = m, AGEXACTM = 30, AGEXACTP = 32, INDNATM = 1,
                INDNATP = 1, ORIGINOM = Some 1, ARECM = 0, ARECP = 0, AMAR = 2016\<rparr>) ms"

definition mixed :: dataframe where
  "mixed =
     [\<lparr>DEPNAIS = StrCell ''75'', MNAIS = 5, AGEXACTM = 28, AGEXACTP = 30, INDNATM = 1, INDNATP = 1,
        ORIGINOM = Some 1, ARECM = 0, ARECP = 0, AMAR = 2015\<rparr>,
      \<lparr>DEPNAIS = StrCell ''75'', MNAIS = 6, AGEXACTM = 30, AGEXACTP = 28, INDNATM = 1, INDNATP = 1,
        ORIGINOM = Some 2, ARECM = 2018, ARECP = 0, AMAR = 0\<rparr>,
      \<lparr>DEPNAIS = StrCell ''2A'', MNAIS = 6, AGEXACTM = 25, AGEXACTP = 30, INDNATM = 2, INDNATP = 1,
        ORIGINOM = Some 2, ARECM = 0, ARECP = 0, AMAR = 0\<rparr>,
      \<lparr>DEPNAIS = StrCell ''2A'', MNAIS = 7, AGEXACTM = 30, AGEXACTP = 33, INDNATM = 1, INDNATP = 2,
        ORIGINOM = Some 3, ARECM = 0, ARECP = 2019, AMAR = 0\<rparr>]"

definition unknown_flag :: dataframe where
  "unknown_flag =
     [\<lparr>DEPNAIS = StrCell ''75'', MNAIS = 5, AGEXACTM = 28, AGEXACTP = 30, INDNATM = 1, INDNATP = 1,
        ORIGINOM = Some 1, ARECM = 0, ARECP = 0, AMAR = 2015\<rparr>,
      \<lparr>DEPNAIS = StrCell ''75'', MNAIS = 6, AGEXACTM = 30, AGEXACTP = 28, INDNATM = 3, INDNATP = 2,
        ORIGINOM = Some 2, ARECM = 2018, ARECP = 0, AMAR = 0\<rparr>]"

section \<open>Properties\<close>

subsection \<open>Lists, sorting and fallible traversals\<close>

lemma set_unique: "set (unique xs) = set xs"
  by (simp add: unique_def)


lemma remdups_snoc: "remdups (ys @ [x]) = removeAll x (remdups ys) @ [x]"
  by (induction ys) auto

text \<open>The first occurrence of a value is the one \<open>unique\<close> keeps.\<close>

lemma unique_Cons: "unique (x # xs) = x # removeAll x (unique xs)"
  by (simp add: unique_def remdups_snoc removeAll_filter_not_eq rev_filter)

lemma traverse_all_Inr:
  "(\<And>x. x \<in> set xs \<Longrightarrow> f x = Inr (g x)) \<Longrightarrow> traverse f xs = Inr (map g xs)"
  by (induction xs) simp_all

lemma traverse_Inl_iff:
  "(\<exists>e. traverse f xs = Inl e) \<longleftrightarrow> (\<exists>x\<in>set xs. \<exists>e. f x = Inl e)"
  by (induction xs) (auto split: sum.splits)

lemma traverse_Inl_source:
  "traverse f xs = Inl e \<Longrightarrow> \<exists>x\<in>set xs. f x = Inl e"
  by (induction xs) (auto split: sum.splits)

lemma traverse_Inr_map:
  "traverse f xs = Inr ys \<Longrightarrow> (\<And>x y. f x = Inr y \<Longrightarrow> h y = k x) \<Longrightarrow> map h ys = map k xs"
  by (induction xs arbitrary: ys) (auto split: sum.splits)

lemma traverse_cases: "(\<exists>e. traverse f xs = Inl e) \<or> (\<exists>ys. traverse f xs = Inr ys)"
  by (cases "traverse f xs") auto

lemma traverse_map: "traverse f (map g xs) = traverse (\<lambda>x. f (g x)) xs"
  by (induction xs) (simp_all split: sum.splits)

lemma insort_key_map:
  "insort_key f (g x) (map g xs) = map g (insort_key (\<lambda>a. f (g a)) x xs)"
  by (induction xs) simp_all

lemma sort_key_map: "sort_key f (map g xs) = map g (sort_key (\<lambda>a. f (g a)) xs)"
  by (induction xs) (simp_all add: insort_key_map)

lemma filter_eq_absent: "c \<notin> set xs \<Longrightarrow> filter (\<lambda>x. x = c) xs = []"
  by (induction xs) auto

lemma filter_eq_distinct: "distinct xs \<Longrightarrow> c \<in> set xs \<Longrightarrow> filter (\<lambda>x. x = c) xs = [c]"
  by (induction xs) (auto simp: filter_eq_absent)

lemma filter_conj_empty: "filter P xs = [] \<Longrightarrow> filter (\<lambda>x. P x \<and> Q x) xs = []"
  by (induction xs) (auto split: if_splits)

lemma length_filter_pos: "k \<in> set ks \<Longrightarrow> 0 < length (filter (\<lambda>k'. k' = k) ks)"
  by (induction ks) auto

lemma sum_length_filter_distinct:
  "distinct cs \<Longrightarrow>
     (\<Sum>c\<leftarrow>cs. length (filter (\<lambda>x. f x = c) xs)) = length (filter (\<lambda>x. f x \<in> set cs) xs)"
proof (induction cs)
  case Nil
  then show ?case by simp
next
  case (Cons c cs)
  have "length (filter (\<lambda>x. f x = c \<or> f x \<in> set cs) xs) =
        length (filter (\<lambda>x. f x = c) xs) + length (filter (\<lambda>x. f x \<in> set cs) xs)"
    using Cons.prems by (induction xs) auto
  with Cons show ?case by simp
qed

lemma groupby_count_sum: "sum_list (map snd (groupby_count ks)) = length ks"
proof -
  have "sum_list (map snd (groupby_count ks)) =
        (\<Sum>k\<leftarrow>sort (remdups ks). length (filter (\<lambda>k'. id k' = k) ks))"
    by (simp add: groupby_count_def comp_def)
  also have "\<dots> = length (filter (\<lambda>k'. id k' \<in> set (sort (remdups ks))) ks)"
    by (rule sum_length_filter_distinct) simp
  also have "\<dots> = length ks"
    by simp
  finally show ?thesis .
qed

lemma set_groupby_keys: "fst ` set (groupby_count ks) = set ks"
  by (auto simp: groupby_count_def image_iff)

lemma groupby_count_member:
  "k \<in> set ks \<Longrightarrow> (k, length (filter (\<lambda>k'. k' = k) ks)) \<in> set (groupby_count ks)"
  by (auto simp: groupby_count_def)

subsection \<open>Department codes\<close>

lemma clean_dep_idem: "clean_dep (StrCell (clean_dep c)) = clean_dep c"
  by (simp add: clean_dep_def Let_def)

lemma clean_dep_long: "length c \<noteq> 1 \<Longrightarrow> clean_dep (StrCell c) = c"
  by (simp add: clean_dep_def)

lemma str_int_1: "str_int 1 = ''1''"
  by (simp add: str_int_def str_nat.simps)

lemma str_int_974: "str_int 974 = ''974''"
  by (simp add: str_int_def str_nat.simps)

text \<open>
  Claim C9. For every raw department code whose string form has length 1,
  \<open>clean_dep\<close> returns the 2-character string made of a leading \<open>0\<close> and the raw
  code; for every raw code whose string form has length at least 2 it returns the string
  form unchanged.
\<close>

theorem clean_dep_pads:
  "(length (str dep) = 1 \<longrightarrow>
      clean_dep dep = CHR ''0'' # str dep \<and> length (clean_dep dep) = 2) \<and>
   (2 \<le> length (str dep) \<longrightarrow> clean_dep dep = str dep)"
  by (simp add: clean_dep_def Let_def)

theorem clean_dep_pads_witness:
  "length (str (IntCell 7)) = 1 \<and> clean_dep (IntCell 7) = ''07'' \<and>
   length (clean_dep (IntCell 7)) = 2 \<and>
   2 \<le> length (str (StrCell ''2A'')) \<and> clean_dep (StrCell ''2A'') = ''2A''"
proof -
  have s: "str_int 7 = ''7''"
    by (simp add: str_int_def str_nat.simps)
  show ?thesis
    using clean_dep_pads [of "IntCell 7"] clean_dep_pads [of "StrCell ''2A''"]
    by (simp add: s)
qed

subsection \<open>The choropleth table\<close>

lemma length_filter_cleaned:
  "length (filter (\<lambda>r. DEPNAIS r = StrCell s) (clean_and_read_data raw_df)) =
   length (filter (\<lambda>r. clean_dep (DEPNAIS r) = s) raw_df)"
  by (induction raw_df) (simp_all add: clean_and_read_data_def)

lemma df_choropleth_closed:
  "df_choropleth gdf_index (clean_and_read_data raw_df) =
   map (\<lambda>code. \<lparr>Department = code,
                 Births_abs = length (filter (\<lambda>r. clean_dep (DEPNAIS r) = clean_dep (StrCell code)) raw_df),
                 Births_log = np_log (length (filter (\<lambda>r. clean_dep (DEPNAIS r) = clean_dep (StrCell code)) raw_df))\<rparr>)
     gdf_index"
  by (simp add: df_choropleth_def choropleth_counts_def length_filter_cleaned comp_def)

text \<open>
  Claim C1, as the code has it. Let the geometry reference list every department code
  once, none of them a single character (its codes have two characters). Then for every
  code \<open>c\<close> of the reference the table has exactly one row, whose count is the number
  of input records whose zero-padded department code is \<open>c\<close>; a code without
  records keeps its row, with count 0 and the logarithm minus infinity, which is not
  finite. The counts of all rows add up to the number of input records whose padded code
  is listed in the reference: records born in a department the reference does not list
  are counted in no row, so the sum is the number of all records only when every
  record's code is listed.
\<close>

theorem df_choropleth_counts:
  assumes "distinct gdf_index" and "\<forall>c\<in>set gdf_index. length c \<noteq> 1"
  shows
    "(\<forall>c\<in>set gdf_index.
        \<exists>row. filter (\<lambda>row. Department row = c)
                 (df_choropleth gdf_index (clean_and_read_data raw_df)) = [row] \<and>
              Births_abs row = length (filter (\<lambda>r. clean_dep (DEPNAIS r) = c) raw_df) \<and>
              (Births_abs row = 0 \<longrightarrow> Births_log row = NegInf \<and> \<not> isfinite (Births_log row))) \<and>
     sum_list (map Births_abs (df_choropleth gdf_index (clean_and_read_data raw_df))) =
       length (filter (\<lambda>r. clean_dep (DEPNAIS r) \<in> set gdf_index) raw_df) \<and>
     ((\<forall>r\<in>set raw_df. clean_dep (DEPNAIS r) \<in> set gdf_index) \<longrightarrow>
        sum_list (map Births_abs (df_choropleth gdf_index (clean_and_read_data raw_df))) =
          length raw_df)"
proof -
  let ?n = "\<lambda>code. length (filter (\<lambda>r. clean_dep (DEPNAIS r) = code) raw_df)"
  let ?mk = "\<lambda>code. \<lparr>Department = code, Births_abs = ?n code, Births_log = np_log (?n code)\<rparr>"
  have table: "df_choropleth gdf_index (clean_and_read_data raw_df) = map ?mk gdf_index"
    unfolding df_choropleth_closed using assms(2) by (simp add: clean_dep_long)
  have rows: "\<exists>row. filter (\<lambda>row. Department row = c) (map ?mk gdf_index) = [row] \<and>
              Births_abs row = ?n c \<and>
              (Births_abs row = 0 \<longrightarrow> Births_log row = NegInf \<and> \<not> isfinite (Births_log row))"
    if "c \<in> set gdf_index" for c
  proof -
    have "filter (\<lambda>row. Department row = c) (map ?mk gdf_index) =
          map ?mk (filter (\<lambda>code. code = c) gdf_index)"
      by (simp add: filter_map comp_def)
    also have "\<dots> = [?mk c]"
      using assms(1) that by (simp add: filter_eq_distinct)
    finally show ?thesis by simp
  qed
  have total: "sum_list (map Births_abs (map ?mk gdf_index)) =
               length (filter (\<lambda>r. clean_dep (DEPNAIS r) \<in> set gdf_index) raw_df)"
    using sum_length_filter_distinct [OF assms(1), of "\<lambda>r. clean_dep (DEPNAIS r)" raw_df]
    by (simp add: comp_def)
  have all: "sum_list (map Births_abs (map ?mk gdf_index)) = length raw_df"
    if "\<forall>r\<in>set raw_df. clean_dep (DEPNAIS r) \<in> set gdf_index"
    using that total by simp
  show ?thesis
    unfolding table using rows total all by blast
qed

theorem df_choropleth_counts_witness:
  "distinct [''01'', ''2A''] \<and> list_all (\<lambda>c. length c \<noteq> 1) [''01'', ''2A''] \<and>
   df_choropleth [''01'', ''2A''] (clean_and_read_data scenario) =
     [\<lparr>Department = ''01'', Births_abs = 3, Births_log = Finite (ln 3)\<rparr>,
      \<lparr>Department = ''2A'', Births_abs = 0, Births_log = NegInf\<rparr>] \<and>
   sum_list (map Births_abs (df_choropleth [''01'', ''2A''] (clean_and_read_data scenario))) =
     length scenario"
  using df_choropleth_counts [of "[''01'', ''2A'']" scenario]
  by (simp add: scenario_def df_choropleth_def choropleth_counts_def clean_and_read_data_def
      clean_dep_def str_int_1)

text \<open>
  The sum of the counts is not the number of records in general: with the reference
  \<open>01, 2A\<close> and one birth in department 974 the table sums to 0.
\<close>

theorem df_choropleth_total_counterexample:
  "sum_list (map Births_abs (df_choropleth [''01'', ''2A''] (clean_and_read_data overseas))) = 0 \<and>
   length overseas = 1 \<and>
   sum_list (map Births_abs (df_choropleth [''01'', ''2A''] (clean_and_read_data overseas))) \<noteq>
     length overseas"
  by (simp add: overseas_def df_choropleth_def choropleth_counts_def clean_and_read_data_def
      clean_dep_def str_int_974)

subsection \<open>The monthly table\<close>

lemma py_getitem_months:
  "1 \<le> m \<Longrightarrow> m \<le> 12 \<Longrightarrow> py_getitem months (m - 1) = Inr (months ! nat (m - 1))"
  by (simp add: py_getitem_def months_def)

lemma monthrange_ndays_2019:
  "1 \<le> m \<Longrightarrow> m \<le> 12 \<Longrightarrow> monthrange_ndays 2019 m = Inr (mdays ! nat m)"
  by (simp add: monthrange_ndays_def isleap_def)

lemma py_round_near: "\<bar>of_int (py_round x) - x\<bar> \<le> 1 / 2"
  unfolding py_round_def Let_def by (auto simp: abs_le_iff)

lemma barplot_counts_closed:
  assumes "\<forall>r\<in>set df. 1 \<le> MNAIS r \<and> MNAIS r \<le> 12"
  shows "barplot_counts df =
         Inr (map (\<lambda>m. (m, months ! nat (m - 1), length (filter (\<lambda>r. MNAIS r = m) df)))
                (unique (map MNAIS df)))"
  unfolding barplot_counts_def
  by (rule traverse_all_Inr) (use assms in \<open>auto simp: set_unique py_getitem_months\<close>)

lemma unique_eq_Nil: "unique xs = [] \<longleftrightarrow> xs = []"
  by (simp add: unique_def)

lemma sort_key_eq_Nil: "sort_key f xs = [] \<longleftrightarrow> xs = []"
  by (metis length_sort list.size(3) length_0_conv)

text \<open>The monthly table of a frame without records is not built.\<close>

lemma df_barplot_empty: "df_barplot [] = Inl ValueError"
  by (simp add: df_barplot_def barplot_counts_def unique_def)

lemma df_barplot_closed:
  assumes "df \<noteq> []" and "\<forall>r\<in>set df. 1 \<le> MNAIS r \<and> MNAIS r \<le> 12"
  shows "df_barplot df =
         Inr (map (\<lambda>m. \<lparr>Month_ind = m, Month_birth = months ! nat (m - 1),
                         Month_Births_abs = length (filter (\<lambda>r. MNAIS r = m) df),
                         Births_norm =
                           py_round (real (length (filter (\<lambda>r. MNAIS r = m) df)) /
                                     real (mdays ! nat m) * 30),
                         Month_procreation = replace_dict procreation (months ! nat (m - 1)),
                         Number =
                           py_round (real (length (filter (\<lambda>r. MNAIS r = m) df)) /
                                     real (mdays ! nat m) * 30)\<rparr>)
                (sort (unique (map MNAIS df))))"
proof -
  have "df_barplot df =
        traverse (\<lambda>m. barplot_finish (m, months ! nat (m - 1), length (filter (\<lambda>r. MNAIS r = m) df)))
          (sort (unique (map MNAIS df)))"
    using assms(1)
    by (simp add: df_barplot_def barplot_counts_closed [OF assms(2)] sort_key_eq_Nil
        unique_eq_Nil sort_key_map traverse_map)
  also have "\<dots> = Inr (map (\<lambda>m. \<lparr>Month_ind = m, Month_birth = months ! nat (m - 1),
                         Month_Births_abs = length (filter (\<lambda>r. MNAIS r = m) df),
                         Births_norm =
                           py_round (real (length (filter (\<lambda>r. MNAIS r = m) df)) /
                                     real (mdays ! nat m) * 30),
                         Month_procreation = replace_dict procreation (months ! nat (m - 1)),
                         Number =
                           py_round (real (length (filter (\<lambda>r. MNAIS r = m) df)) /
                                     real (mdays ! nat m) * 30)\<rparr>)
                (sort (unique (map MNAIS df))))"
    by (rule traverse_all_Inr)
      (use assms(2) in
        \<open>auto simp: set_unique barplot_finish_def births_norm_def monthrange_ndays_2019\<close>)
  finally show ?thesis .
qed



text \<open>
  Claim C7. For a frame that has a record and whose birth months lie in 1..12, the
  monthly table is built, and every row of it
  carries the number \<open>A\<close> of births of its month, and its normalised count is
  \<open>round (A / d * 30)\<close> for the number \<open>d\<close> of days that \<open>monthrange\<close> gives
  the month in 2019; for February that is \<open>round (A / 28 * 30)\<close>. The rounding is
  Python's, to the nearest integer and to the even one at a tie.
\<close>

theorem births_norm_formula:
  assumes "df \<noteq> []" and "\<forall>r\<in>set df. 1 \<le> MNAIS r \<and> MNAIS r \<le> 12"
  shows "\<exists>rows. df_barplot df = Inr rows \<and>
           (\<forall>row\<in>set rows.
              Month_Births_abs row = length (filter (\<lambda>r. MNAIS r = Month_ind row) df) \<and>
              (\<exists>ndays. monthrange_ndays 2019 (Month_ind row) = Inr ndays \<and>
                 Births_norm row = py_round (real (Month_Births_abs row) / real ndays * 30)) \<and>
              (Month_ind row = 2 \<longrightarrow>
                 Births_norm row = py_round (real (Month_Births_abs row) / 28 * 30)))"
proof -
  have in_range: "1 \<le> m \<and> m \<le> 12" if "m \<in> set (sort (unique (map MNAIS df)))" for m
    using that assms(2) by (auto simp: set_unique)
  have feb: "mdays ! 2 = 28"
    by (simp add: mdays_def)
  show ?thesis
    unfolding df_barplot_closed [OF assms]
    using in_range by (auto simp: monthrange_ndays_2019 feb)
qed

theorem births_norm_formula_witness:
  "month_frame [2, 2, 2, 2, 2, 2, 2, 3] \<noteq> [] \<and>
   list_all (\<lambda>r. 1 \<le> MNAIS r \<and> MNAIS r \<le> 12) (month_frame [2, 2, 2, 2, 2, 2, 2, 3]) \<and>
   df_barplot (month_frame [2, 2, 2, 2, 2, 2, 2, 3]) =
     Inr [\<lparr>Month_ind = 2, Month_birth = ''February'', Month_Births_abs = 7, Births_norm = 8,
            Month_procreation = ''May 2018'', Number = 8\<rparr>,
          \<lparr>Month_ind = 3, Month_birth = ''March'', Month_Births_abs = 1, Births_norm = 1,
            Month_procreation = ''June 2018'', Number = 1\<rparr>] \<and>
   monthrange_ndays 2019 2 = Inr 28 \<and>
   py_round (real 7 / 28 * 30) = 8"
proof -
  have h: "\<forall>r\<in>set (month_frame [2, 2, 2, 2, 2, 2, 2, 3]). 1 \<le> MNAIS r \<and> MNAIS r \<le> 12"
    by (simp add: month_frame_def)
  have e: "df_barplot (month_frame [2, 2, 2, 2, 2, 2, 2, 3]) =
     Inr [\<lparr>Month_ind = 2, Month_birth = ''February'', Month_Births_abs = 7, Births_norm = 8,
            Month_procreation = ''May 2018'', Number = 8\<rparr>,
          \<lparr>Month_ind = 3, Month_birth = ''March'', Month_Births_abs = 1, Births_norm = 1,
            Month_procreation = ''June 2018'', Number = 1\<rparr>]"
    by code_simp
  have d: "monthrange_ndays 2019 2 = Inr 28"
    by (simp add: monthrange_ndays_def isleap_def mdays_def)
  have n: "month_frame [2, 2, 2, 2, 2, 2, 2, 3] \<noteq> []"
    by (simp add: month_frame_def)
  from births_norm_formula [OF n h] e d n show ?thesis
    by (auto simp: month_frame_def)
qed

text \<open>
  Claim C6. The procreation label is a fixed lookup on the label of the birth month: the
  twelve month names, in order, are sent to April 2018, May 2018, ..., December 2018,
  January 2019, February 2019 and March 2019, and in every row of the monthly table (of a
  frame that has a record and whose birth months lie in 1..12) the birth label is the
  name of the row's month
  and the procreation label is the entry of that list at the month's position, the year
  changing between the birth months 9 and 10.
\<close>

theorem procreation_lookup:
  assumes "df \<noteq> []" and "\<forall>r\<in>set df. 1 \<le> MNAIS r \<and> MNAIS r \<le> 12"
  shows "map (replace_dict procreation) months =
           [''April 2018'', ''May 2018'', ''June 2018'', ''July 2018'', ''August 2018'',
            ''September 2018'', ''October 2018'', ''November 2018'', ''December 2018'',
            ''January 2019'', ''February 2019'', ''March 2019''] \<and>
         (\<exists>rows. df_barplot df = Inr rows \<and>
            (\<forall>row\<in>set rows.
               py_getitem months (Month_ind row - 1) = Inr (Month_birth row) \<and>
               Month_procreation row = replace_dict procreation (Month_birth row) \<and>
               Month_procreation row =
                 [''April 2018'', ''May 2018'', ''June 2018'', ''July 2018'', ''August 2018'',
                  ''September 2018'', ''October 2018'', ''November 2018'', ''December 2018'',
                  ''January 2019'', ''February 2019'', ''March 2019''] ! nat (Month_ind row - 1)))"
proof -
  let ?labels = "[''April 2018'', ''May 2018'', ''June 2018'', ''July 2018'', ''August 2018'',
            ''September 2018'', ''October 2018'', ''November 2018'', ''December 2018'',
            ''January 2019'', ''February 2019'', ''March 2019'']"
  have table: "map (replace_dict procreation) months = ?labels"
    by (simp add: replace_dict_def procreation_def months_def)
  have in_range: "1 \<le> m \<and> m \<le> 12" if "m \<in> set (sort (unique (map MNAIS df)))" for m
    using that assms(2) by (auto simp: set_unique)
  have nth: "replace_dict procreation (months ! nat (m - 1)) = ?labels ! nat (m - 1)"
    if "1 \<le> m \<and> m \<le> 12" for m
  proof -
    have "length months = 12"
      by (simp add: months_def)
    then have "nat (m - 1) < length months"
      using that by linarith
    then have "map (replace_dict procreation) months ! nat (m - 1) =
               replace_dict procreation (months ! nat (m - 1))"
      by (rule nth_map)
    then show ?thesis
      by (simp only: table)
  qed
  show ?thesis
    unfolding df_barplot_closed [OF assms]
    using in_range table nth by (auto simp: py_getitem_months)
qed

theorem procreation_lookup_witness:
  "month_frame [10, 4, 9] \<noteq> [] \<and>
   list_all (\<lambda>r. 1 \<le> MNAIS r \<and> MNAIS r \<le> 12) (month_frame [10, 4, 9]) \<and>
   (\<exists>rows. df_barplot (month_frame [10, 4, 9]) = Inr rows \<and>
      map (\<lambda>row. (Month_ind row, Month_birth row, Month_procreation row)) rows =
        [(4, ''April'', ''July 2018''), (9, ''September'', ''December 2018''),
         (10, ''October'', ''January 2019'')])"
proof -
  have h: "\<forall>r\<in>set (month_frame [10, 4, 9]). 1 \<le> MNAIS r \<and> MNAIS r \<le> 12"
    by (simp add: month_frame_def)
  have e: "map (\<lambda>row. (Month_ind row, Month_birth row, Month_procreation row))
             (projr (df_barplot (month_frame [10, 4, 9]))) =
        [(4, ''April'', ''July 2018''), (9, ''September'', ''December 2018''),
         (10, ''October'', ''January 2019'')]"
    by code_simp
  have n: "month_frame [10, 4, 9] \<noteq> []"
    by (simp add: month_frame_def)
  from procreation_lookup [OF n h] e n show ?thesis
    by (auto simp: month_frame_def)
qed

subsection \<open>The last-name-origin table\<close>

lemma dict_getitem_ind_to_nat:
  "dict_getitem ind_to_nat k =
     (if k = 1 then Inr ''French'' else if k = 2 then Inr ''Foreign'' else Inl (KeyError k))"
  by (simp add: dict_getitem_def ind_to_nat_def)

lemma sunburst_row_Inl_iff:
  "(\<exists>e. sunburst_row ((natp, natm, choice), n) = Inl e) \<longleftrightarrow>
   natp \<notin> {1, 2} \<or> natm \<notin> {1, 2}"
  by (auto simp: sunburst_row_def dict_getitem_ind_to_nat split: sum.splits if_splits)

lemma sunburst_row_error:
  "sunburst_row ser = Inl e \<Longrightarrow> \<exists>k. e = KeyError k \<and> k \<notin> {1, 2}"
  by (auto simp: sunburst_row_def dict_getitem_ind_to_nat split: sum.splits if_splits prod.splits)

lemma sunburst_row_births: "sunburst_row ser = Inr row \<Longrightarrow> fst row = snd ser"
  by (auto simp: sunburst_row_def split: sum.splits prod.splits)

lemma last_name_groups_keys:
  "fst ` set (last_name_groups df) = (\<lambda>r. (INDNATP r, INDNATM r, last_name_choice r)) ` set df"
  by (simp add: last_name_groups_def set_groupby_keys)

lemma last_name_pie_Inl_iff:
  "(\<exists>e. last_name_pie df = Inl e) \<longleftrightarrow>
   (\<exists>r\<in>set df. INDNATM r \<notin> {1, 2} \<or> INDNATP r \<notin> {1, 2})"
proof -
  have "(\<exists>e. last_name_pie df = Inl e) \<longleftrightarrow>
        (\<exists>g\<in>set (last_name_groups df). fst (fst g) \<notin> {1, 2} \<or> fst (snd (fst g)) \<notin> {1, 2})"
    unfolding last_name_pie_def traverse_Inl_iff
    by (rule bex_cong [OF refl]) (use sunburst_row_Inl_iff in \<open>auto simp: split_paired_all\<close>)
  also have "\<dots> \<longleftrightarrow>
        (\<exists>k\<in>fst ` set (last_name_groups df). fst k \<notin> {1, 2} \<or> fst (snd k) \<notin> {1, 2})"
    by simp
  also have "\<dots> \<longleftrightarrow> (\<exists>r\<in>set df. INDNATM r \<notin> {1, 2} \<or> INDNATP r \<notin> {1, 2})"
    unfolding last_name_groups_keys by auto
  finally show ?thesis .
qed

lemma last_name_choice_default:
  "ORIGINOM ser \<notin> Some ` {1, 2, 3, 4, 5} \<Longrightarrow> last_name_choice ser = ''Father''"
  by (auto simp: last_name_choice_def ind_to_origine_nom_def split: option.splits)

text \<open>
  Claim C4. Building the last-name-origin table raises if and only if some record has a
  mother's or a father's nationality flag outside \<open>{1, 2}\<close>; what it raises is then
  the failed lookup of such a flag; and when every flag of every record is 1 or 2 the
  table is built.
\<close>

theorem last_name_pie_fails_iff:
  "((\<exists>e. last_name_pie df = Inl e) \<longleftrightarrow>
      (\<exists>r\<in>set df. INDNATM r \<notin> {1, 2} \<or> INDNATP r \<notin> {1, 2})) \<and>
   (\<forall>e. last_name_pie df = Inl e \<longrightarrow> (\<exists>k. e = KeyError k \<and> k \<notin> {1, 2})) \<and>
   ((\<forall>r\<in>set df. INDNATM r \<in> {1, 2} \<and> INDNATP r \<in> {1, 2}) \<longrightarrow>
      (\<exists>rows. last_name_pie df = Inr rows))"
proof -
  have kind: "\<exists>k. e = KeyError k \<and> k \<notin> {1, 2}" if "last_name_pie df = Inl e" for e
    using traverse_Inl_source [OF that [unfolded last_name_pie_def]] sunburst_row_error
    by blast
  have completes: "\<exists>rows. last_name_pie df = Inr rows"
    if "\<forall>r\<in>set df. INDNATM r \<in> {1, 2} \<and> INDNATP r \<in> {1, 2}"
  proof -
    from that have "\<not> (\<exists>e. last_name_pie df = Inl e)"
      unfolding last_name_pie_Inl_iff by blast
    then show ?thesis
      using traverse_cases [of sunburst_row "last_name_groups df"]
      by (simp add: last_name_pie_def)
  qed
  show ?thesis
    using last_name_pie_Inl_iff [of df] kind completes by blast
qed

theorem last_name_pie_fails_iff_witness:
  "last_name_pie unknown_flag = Inl (KeyError 3) \<and>
   list_ex (\<lambda>r. INDNATM r \<notin> {1, 2} \<or> INDNATP r \<notin> {1, 2}) unknown_flag \<and>
   list_all (\<lambda>r. INDNATM r \<in> {1, 2} \<and> INDNATP r \<in> {1, 2}) scenario \<and>
   last_name_pie scenario =
     Inr [(1, ''French/French'', ''Father''), (1, ''French/Foreign'', ''Father''),
          (1, ''Foreign/French'', ''Father'')]"
proof -
  have bad: "last_name_pie unknown_flag = Inl (KeyError 3)"
    by code_simp
  have good: "last_name_pie scenario =
     Inr [(1, ''French/French'', ''Father''), (1, ''French/Foreign'', ''Father''),
          (1, ''Foreign/French'', ''Father'')]"
    by code_simp
  from last_name_pie_fails_iff [of unknown_flag] last_name_pie_fails_iff [of scenario] bad good
  show ?thesis
    by (simp add: unknown_flag_def scenario_def)
qed

text \<open>
  Claim C5. Every record whose name-origin code is not one of 1, 2, 3, 4, 5 gets the label
  \<open>Father\<close> and is counted in the group of its two nationality flags and that
  label; the counts of the groups add up to the number of records, and so do the counts
  of the table handed to the chart whenever it is built.
\<close>

theorem last_name_default_and_total:
  "(\<forall>r\<in>set df. ORIGINOM r \<notin> Some ` {1, 2, 3, 4, 5} \<longrightarrow>
      last_name_choice r = ''Father'' \<and>
      (\<exists>n>0. ((INDNATP r, INDNATM r, ''Father''), n) \<in> set (last_name_groups df))) \<and>
   sum_list (map snd (last_name_groups df)) = length df \<and>
   (\<forall>rows. last_name_pie df = Inr rows \<longrightarrow> sum_list (map fst rows) = length df)"
proof -
  let ?key = "\<lambda>r. (INDNATP r, INDNATM r, last_name_choice r)"
  have total: "sum_list (map snd (last_name_groups df)) = length df"
    by (simp add: last_name_groups_def groupby_count_sum)
  have grouped: "last_name_choice r = ''Father'' \<and>
      (\<exists>n>0. ((INDNATP r, INDNATM r, ''Father''), n) \<in> set (last_name_groups df))"
    if "r \<in> set df" and "ORIGINOM r \<notin> Some ` {1, 2, 3, 4, 5}" for r
  proof -
    have label: "last_name_choice r = ''Father''"
      using that(2) by (rule last_name_choice_default)
    have "?key r \<in> set (map ?key df)"
      using that(1) by simp
    then have "(?key r, length (filter (\<lambda>k'. k' = ?key r) (map ?key df))) \<in> set (last_name_groups df)"
      and "0 < length (filter (\<lambda>k'. k' = ?key r) (map ?key df))"
      unfolding last_name_groups_def by (rule groupby_count_member, rule length_filter_pos)
    with label show ?thesis
      by auto
  qed
  have pie: "sum_list (map fst rows) = length df" if "last_name_pie df = Inr rows" for rows
  proof -
    have "map fst rows = map snd (last_name_groups df)"
      using that [unfolded last_name_pie_def] sunburst_row_births by (rule traverse_Inr_map)
    with total show ?thesis
      by simp
  qed
  show ?thesis
    using total grouped pie by blast
qed

theorem last_name_default_and_total_witness:
  "list_ex (\<lambda>r. ORIGINOM r = Some 9 \<and> last_name_choice r = ''Father'') scenario \<and>
   last_name_groups scenario =
     [((1, 1, ''Father''), 1), ((1, 2, ''Father''), 1), ((2, 1, ''Father''), 1)] \<and>
   sum_list (map snd (last_name_groups scenario)) = 3 \<and>
   length scenario = 3"
proof -
  have g: "last_name_groups scenario =
     [((1, 1, ''Father''), 1), ((1, 2, ''Father''), 1), ((2, 1, ''Father''), 1)]"
    by code_simp
  from last_name_default_and_total [of scenario] g show ?thesis
    by (simp add: scenario_def last_name_choice_def ind_to_origine_nom_def)
qed

subsection \<open>Last-name choice by age\<close>

lemma last_name_line_member:
  "(age, name_choice, v) \<in> set (last_name_line df) \<longleftrightarrow>
   age \<in> set (map AGEXACTP df) \<and> name_choice \<in> set (map last_name_choice df) \<and>
   v = np_times
         (np_divide
            (length (filter (\<lambda>r. last_name_choice r = name_choice) (sub_df df age)))
            (length (sub_df df age)))
         100"
  by (auto simp: last_name_line_def set_unique simp del: np_divide.simps)

lemma sub_df_nonempty: "age \<in> set (map AGEXACTP df) \<Longrightarrow> 0 < length (sub_df df age)"
  by (induction df) (auto simp: sub_df_def)

text \<open>
  Claim C2, as the code has it. The ages of the table are the ages of the father's
  column: for every age that occurs in the father's age column and every label that
  occurs in the frame, the table holds the entry of that age and label whose value is the
  number of records of the age subset with the label, divided by the size of the subset,
  times 100, where the subset is the records in which either parent has the age. No
  entry has another age or label.
\<close>

theorem last_name_line_shares:
  "(\<forall>age\<in>set (map AGEXACTP df). \<forall>name_choice\<in>set (map last_name_choice df).
      (age, name_choice,
       Finite (real (length (filter (\<lambda>r. last_name_choice r = name_choice) (sub_df df age))) /
               real (length (sub_df df age)) * 100)) \<in> set (last_name_line df)) \<and>
   (\<forall>entry\<in>set (last_name_line df).
      fst entry \<in> set (map AGEXACTP df) \<and> fst (snd entry) \<in> set (map last_name_choice df))"
proof -
  have share: "(age, name_choice,
       Finite (real (length (filter (\<lambda>r. last_name_choice r = name_choice) (sub_df df age))) /
               real (length (sub_df df age)) * 100)) \<in> set (last_name_line df)"
    if "age \<in> set (map AGEXACTP df)" and "name_choice \<in> set (map last_name_choice df)"
    for age name_choice
    using that sub_df_nonempty [OF that(1)] unfolding last_name_line_member by simp
  have only: "fst entry \<in> set (map AGEXACTP df) \<and> fst (snd entry) \<in> set (map last_name_choice df)"
    if "entry \<in> set (last_name_line df)" for entry
    using that last_name_line_member [of "fst entry" "fst (snd entry)" "snd (snd entry)" df]
    by simp
  show ?thesis
    using share only by blast
qed

theorem last_name_line_shares_witness:
  "30 \<in> set (map AGEXACTP mixed) \<and> ''Mother'' \<in> set (map last_name_choice mixed) \<and>
   length (sub_df mixed 30) = 4 \<and>
   length (filter (\<lambda>r. last_name_choice r = ''Mother'') (sub_df mixed 30)) = 2 \<and>
   (30, ''Mother'', Finite 50) \<in> set (last_name_line mixed)"
proof -
  have a: "30 \<in> set (map AGEXACTP mixed)" and l: "''Mother'' \<in> set (map last_name_choice mixed)"
    by (simp_all add: mixed_def last_name_choice_def ind_to_origine_nom_def)
  have n: "length (sub_df mixed 30) = 4"
    and k: "length (filter (\<lambda>r. last_name_choice r = ''Mother'') (sub_df mixed 30)) = 2"
    by (simp_all add: mixed_def sub_df_def last_name_choice_def ind_to_origine_nom_def)
  from last_name_line_shares [of mixed] a l
  have "(30, ''Mother'',
       Finite (real (length (filter (\<lambda>r. last_name_choice r = ''Mother'') (sub_df mixed 30))) /
               real (length (sub_df mixed 30)) * 100)) \<in> set (last_name_line mixed)"
    by blast
  with a l n k show ?thesis
    by simp
qed

text \<open>
  An age that occurs in the mother's column only has no entry: in \<open>mixed\<close> a mother
  is 25 and no father is, and the ages of the table are 28, 30 and 33.
\<close>

theorem last_name_line_mother_age_counterexample:
  "25 \<in> set (map AGEXACTM mixed) \<and> 25 \<notin> fst ` set (last_name_line mixed) \<and>
   map fst (last_name_line mixed) = [28, 28, 28, 30, 30, 30, 33, 33, 33]"
proof -
  have "map fst (last_name_line mixed) = [28, 28, 28, 30, 30, 30, 33, 33, 33]"
    by code_simp
  moreover from this have "fst ` set (last_name_line mixed) = {28, 30, 33}"
    unfolding set_map [symmetric] by simp
  moreover have "25 \<in> set (map AGEXACTM mixed)"
    by (simp add: mixed_def)
  ultimately show ?thesis
    by simp
qed

text \<open>
  Claim C10. Every age the loop iterates is an age of some father, so the subset of the
  records in which either parent has that age is not empty: the divisor is positive and
  every percentage of the table is a finite number.
\<close>

theorem last_name_line_finite:
  "(\<forall>age\<in>set (sort (unique (map AGEXACTP df))). 0 < length (sub_df df age)) \<and>
   (\<forall>entry\<in>set (last_name_line df).
      0 < length (sub_df df (fst entry)) \<and> isfinite (snd (snd entry)))"
proof -
  have pos: "0 < length (sub_df df age)" if "age \<in> set (sort (unique (map AGEXACTP df)))" for age
    using that by (intro sub_df_nonempty) (simp add: set_unique)
  have fin: "0 < length (sub_df df (fst entry)) \<and> isfinite (snd (snd entry))"
    if "entry \<in> set (last_name_line df)" for entry
  proof -
    obtain age name_choice v where e: "entry = (age, name_choice, v)"
      by (cases entry) auto
    from that have m: "age \<in> set (map AGEXACTP df)"
      and v: "v = np_times
         (np_divide
            (length (filter (\<lambda>r. last_name_choice r = name_choice) (sub_df df age)))
            (length (sub_df df age)))
         100"
      unfolding e last_name_line_member by simp_all
    from sub_df_nonempty [OF m] v show ?thesis
      by (simp add: e)
  qed
  show ?thesis
    using pos fin by blast
qed

theorem last_name_line_finite_witness:
  "sort (unique (map AGEXACTP mixed)) = [28, 30, 33] \<and>
   map (\<lambda>age. length (sub_df mixed age)) [28, 30, 33] = [2, 4, 1] \<and>
   last_name_line mixed =
     [(28, ''Father'', Finite 50), (28, ''Mother'', Finite 50),
      (28, ''Father - Mother'', Finite 0), (30, ''Father'', Finite 25),
      (30, ''Mother'', Finite 50), (30, ''Father - Mother'', Finite 25),
      (33, ''Father'', Finite 0), (33, ''Mother'', Finite 0),
      (33, ''Father - Mother'', Finite 100)] \<and>
   list_all (\<lambda>entry. isfinite (snd (snd entry))) (last_name_line mixed)"
proof -
  have ages: "sort (unique (map AGEXACTP mixed)) = [28, 30, 33]"
    by code_simp
  have sizes: "map (\<lambda>age. length (sub_df mixed age)) [28, 30, 33] = [2, 4, 1]"
    by code_simp
  have table: "last_name_line mixed =
     [(28, ''Father'', Finite 50), (28, ''Mother'', Finite 50),
      (28, ''Father - Mother'', Finite 0), (30, ''Father'', Finite 25),
      (30, ''Mother'', Finite 50), (30, ''Father - Mother'', Finite 25),
      (33, ''Father'', Finite 0), (33, ''Mother'', Finite 0),
      (33, ''Father - Mother'', Finite 100)]"
    by code_simp
  from last_name_line_finite [of mixed] have "list_all (\<lambda>entry. isfinite (snd (snd entry))) (last_name_line mixed)"
    unfolding list_all_iff by blast
  with ages sizes table show ?thesis
    by simp
qed

subsection \<open>Recognition rate by age\<close>

lemma recognition_member:
  "(role, age, v) \<in> set (recognition df) \<longleftrightarrow>
   age \<in> set (map AGEXACTP df) \<and>
   (role = ''Mother'' \<and>
    v = np_times
          (np_divide
             (length (filter (\<lambda>r. AGEXACTM r = age \<and> (ARECM r \<noteq> 0 \<or> AMAR r \<noteq> 0)) df))
             (length (filter (\<lambda>r. AGEXACTM r = age) df)))
          100 \<or>
    role = ''Father'' \<and>
    v = np_times
          (np_divide
             (length (filter (\<lambda>r. AGEXACTP r = age \<and> (ARECP r \<noteq> 0 \<or> AMAR r \<noteq> 0)) df))
             (length (filter (\<lambda>r. AGEXACTP r = age) df)))
          100)"
  by (auto simp: recognition_def set_unique simp del: np_divide.simps)

text \<open>
  The ages the loop iterates are the fathers', so a father's entry always has a positive
  divisor; a mother's entry need not.
\<close>

lemma recognition_father_divisor:
  "(''Father'', age, v) \<in> set (recognition df) \<Longrightarrow>
   0 < length (filter (\<lambda>r. AGEXACTP r = age) df)"
proof -
  assume "(''Father'', age, v) \<in> set (recognition df)"
  then have "age \<in> set (map AGEXACTP df)"
    unfolding recognition_member by simp
  then show ?thesis
    by (induction df) auto
qed

text \<open>
  Claim C3. For every age the loop iterates (every age of the father's column) the table
  has the mother's entry and the father's entry of that age, and no other entries. When
  no record has the mother at an iterated age, the mother's entry of that age is there
  with the value not-a-number; and whichever the parent, an entry whose parent has no
  record at the entry's age has the value not-a-number: it is not finite, and it is not
  0.
\<close>

theorem recognition_zero_count:
  "(age \<in> set (map AGEXACTP df) \<and> length (filter (\<lambda>r. AGEXACTM r = age) df) = 0 \<longrightarrow>
      (''Mother'', age, NaN) \<in> set (recognition df)) \<and>
   (age \<in> set (map AGEXACTP df) \<longrightarrow>
      (\<exists>m. (''Mother'', age, m) \<in> set (recognition df)) \<and>
      (\<exists>p. (''Father'', age, p) \<in> set (recognition df))) \<and>
   ((''Mother'', age, v) \<in> set (recognition df) \<and>
      length (filter (\<lambda>r. AGEXACTM r = age) df) = 0 \<longrightarrow>
        v = NaN \<and> \<not> isfinite v \<and> v \<noteq> Finite 0) \<and>
   ((''Father'', age, v) \<in> set (recognition df) \<and>
      length (filter (\<lambda>r. AGEXACTP r = age) df) = 0 \<longrightarrow>
        v = NaN \<and> \<not> isfinite v \<and> v \<noteq> Finite 0) \<and>
   ((role, age, v) \<in> set (recognition df) \<longrightarrow>
      (role = ''Mother'' \<or> role = ''Father'') \<and> age \<in> set (map AGEXACTP df))"
proof -
  have present: "(''Mother'', age, NaN) \<in> set (recognition df)"
    if "age \<in> set (map AGEXACTP df)" and "length (filter (\<lambda>r. AGEXACTM r = age) df) = 0"
    using that unfolding recognition_member by (simp add: filter_conj_empty)
  have both: "(\<exists>m. (''Mother'', age, m) \<in> set (recognition df)) \<and>
      (\<exists>p. (''Father'', age, p) \<in> set (recognition df))"
    if "age \<in> set (map AGEXACTP df)"
    using that unfolding recognition_member by simp
  have mother: "v = NaN \<and> \<not> isfinite v \<and> v \<noteq> Finite 0"
    if "(''Mother'', age, v) \<in> set (recognition df)"
      and "length (filter (\<lambda>r. AGEXACTM r = age) df) = 0"
    using that unfolding recognition_member by (simp add: filter_conj_empty)
  have father: "v = NaN \<and> \<not> isfinite v \<and> v \<noteq> Finite 0"
    if "(''Father'', age, v) \<in> set (recognition df)"
      and "length (filter (\<lambda>r. AGEXACTP r = age) df) = 0"
    using that unfolding recognition_member by (simp add: filter_conj_empty)
  have roles: "(role = ''Mother'' \<or> role = ''Father'') \<and> age \<in> set (map AGEXACTP df)"
    if "(role, age, v) \<in> set (recognition df)"
    using that unfolding recognition_member by blast
  show ?thesis
    using present both mother father roles by blast
qed

theorem recognition_zero_count_witness:
  "33 \<in> set (map AGEXACTP mixed) \<and>
   length (filter (\<lambda>r. AGEXACTM r = 33) mixed) = 0 \<and>
   (''Mother'', 33, NaN) \<in> set (recognition mixed) \<and>
   \<not> isfinite NaN \<and>
   recognition mixed =
     [(''Mother'', 28, Finite 100), (''Father'', 28, Finite 0),
      (''Mother'', 30, Finite 50), (''Father'', 30, Finite 50),
      (''Mother'', 33, NaN), (''Father'', 33, Finite 100)]"
proof -
  have table: "recognition mixed =
     [(''Mother'', 28, Finite 100), (''Father'', 28, Finite 0),
      (''Mother'', 30, Finite 50), (''Father'', 30, Finite 50),
      (''Mother'', 33, NaN), (''Father'', 33, Finite 100)]"
    by code_simp
  have iterated: "33 \<in> set (map AGEXACTP mixed)"
    and none: "length (filter (\<lambda>r. AGEXACTM r = 33) mixed) = 0"
    by (simp_all add: mixed_def)
  from recognition_zero_count [of 33 mixed NaN "''Mother''"] iterated none
  have "(''Mother'', 33, NaN) \<in> set (recognition mixed)"
    by blast
  with table iterated none show ?thesis
    by simp
qed

end
